theory Spec2Isabelle
  imports Main "HOL-Library.Sublist"
begin

section \<open>Course records\<close>

text \<open>
  A course's category travels either as a bare id string or as an object carrying
  \<^verbatim>\<open>_id\<close>, \<^verbatim>\<open>id\<close> and \<^verbatim>\<open>name\<close> properties, each of which may be
  absent. \<open>NoCategory\<close> is JavaScript's \<^verbatim>\<open>undefined\<close>.
\<close>

datatype category =
    NoCategory
  | CatStr string
  | CatObj (cat_oid: "string option") (cat_id: "string option") (cat_name: "string option")

text \<open>
  The fields of a course record that the synchronisation code reads or writes. \<open>c_id\<close>
  is the \<^verbatim>\<open>_id\<close> property: \<open>None\<close> when the property is absent
  (\<^verbatim>\<open>undefined\<close>).
\<close>

record course =
  c_id :: "string option"
  title :: string
  instructor :: string
  category :: category
  updatedAt :: "string option"

text \<open>JavaScript truthiness of a string-valued property: absent and empty are falsy.\<close>

definition truthy :: "string option \<Rightarrow> bool" where
  "truthy v = (case v of None \<Rightarrow> False | Some s \<Rightarrow> s \<noteq> [])"

section \<open>Errors\<close>

datatype error =
    AuthRequired
  | ApiError nat
  | NetworkError
  | SyntaxError
  | QuotaExceededError
  | InvalidCourse

section \<open>Browser storage\<close>

text \<open>
  A storage slot holds text. \<open>Json cs\<close> is the text \<^verbatim>\<open>JSON.stringify(cs)\<close> of an array
  of course records, which \<^verbatim>\<open>JSON.parse\<close> turns back into \<open>cs\<close>; \<open>Text s\<close> is any
  other text \<open>s\<close>, on which \<^verbatim>\<open>JSON.parse\<close> throws. \<open>Text []\<close> is the empty
  string, the only falsy text. Text that parses to something other than an array of
  records (\<^verbatim>\<open>null\<close>, a number, a lone object) is not represented: no function here
  writes such text into a course slot.
\<close>

datatype slot = Json "course list" | Text string

type_synonym storage = "string \<rightharpoonup> slot"

text \<open>
  \<^verbatim>\<open>localStorage.setItem\<close> throws when the browser refuses the write (its quota is
  exceeded). Whether a write is refused is the browser's decision; it is a parameter of
  every function that writes: \<open>q st k v\<close> holds when storage \<open>st\<close> accepts value \<open>v\<close>
  under key \<open>k\<close>.
\<close>

type_synonym quota = "storage \<Rightarrow> string \<Rightarrow> slot \<Rightarrow> bool"

definition unlimited :: quota where
  "unlimited st k v = True"

text \<open>
  A run of consecutive \<^verbatim>\<open>localStorage.setItem(k, v)\<close> statements: the first refused
  write throws, the writes before it stay, the ones after it are never made.
\<close>

fun setItems :: "quota \<Rightarrow> (string \<times> slot) list \<Rightarrow> storage \<Rightarrow> error option \<times> storage" where
  "setItems q [] st = (None, st)"
| "setItems q ((k, v) # kvs) st =
     (if q st k v then setItems q kvs (st(k \<mapsto> v)) else (Some QuotaExceededError, st))"

definition slot_truthy :: "slot \<Rightarrow> bool" where
  "slot_truthy v = (case v of Json cs \<Rightarrow> True | Text s \<Rightarrow> s \<noteq> [])"

definition JSON_parse :: "slot \<Rightarrow> error + course list" where
  "JSON_parse v = (case v of Json cs \<Rightarrow> Inr cs | Text s \<Rightarrow> Inl SyntaxError)"

text \<open>
  The four redundant slots of the local mirror, and a browser that refuses a write once
  these slots together would hold more than \<open>limit\<close> units (one unit per stored record or
  per character of other text).
\<close>

definition mirror_keys :: "string list" where
  "mirror_keys = [''adminCourses'', ''edutube_courses'', ''courses_data'', ''user_courses'']"

definition slot_size :: "slot option \<Rightarrow> nat" where
  "slot_size v = (case v of None \<Rightarrow> 0 | Some (Json cs) \<Rightarrow> length cs | Some (Text s) \<Rightarrow> length s)"

definition quota_of :: "nat \<Rightarrow> quota" where
  "quota_of limit st k v = (sum_list (map (\<lambda>k'. slot_size ((st(k \<mapsto> v)) k')) mirror_keys) \<le> limit)"

section \<open>sync-courses-global.js: syncLocalStorage\<close>

text \<open>
  \<^verbatim>\<open>Array.prototype.findIndex\<close>: the index of the first element satisfying the
  predicate, \<open>-1\<close> when there is none.
\<close>

fun findIndex :: "('a \<Rightarrow> bool) \<Rightarrow> 'a list \<Rightarrow> int" where
  "findIndex P [] = -1"
| "findIndex P (x # xs) =
     (if P x then 0 else (let i = findIndex P xs in if i < 0 then -1 else i + 1))"

text \<open>
  The read at the top of \<^verbatim>\<open>syncLocalStorage\<close>: the list starts empty, and is replaced
  by the parsed slot when the slot holds truthy text; a parse failure is caught and
  leaves the list empty.
\<close>

definition read_courses :: "storage \<Rightarrow> string \<Rightarrow> course list" where
  "read_courses st k =
     (case st k of
        None \<Rightarrow> []
      | Some v \<Rightarrow>
          if slot_truthy v
          then (case JSON_parse v of Inr cs \<Rightarrow> cs | Inl e \<Rightarrow> [])
          else [])"

text \<open>
  The update-or-add block, which \<^verbatim>\<open>syncLocalStorage\<close> runs once on each of its two
  lists: \<^verbatim>\<open>findIndex(c => c._id === course._id)\<close>, then assignment at that index or
  \<^verbatim>\<open>push\<close>.
\<close>

definition update_or_add :: "course \<Rightarrow> course list \<Rightarrow> course list" where
  "update_or_add course cs =
     (let i = findIndex (\<lambda>c. c_id c = c_id course) cs
      in if i \<ge> 0 then cs[nat i := course] else cs @ [course])"

definition syncLocalStorage :: "quota \<Rightarrow> course \<Rightarrow> storage \<Rightarrow> error option \<times> storage" where
  "syncLocalStorage q course st =
     (let adminCourses = update_or_add course (read_courses st ''adminCourses'');
          eduTubeCourses = update_or_add course (read_courses st ''edutube_courses'')
      in setItems q
           [(''adminCourses'', Json adminCourses),
            (''edutube_courses'', Json eduTubeCourses),
            (''courses_data'', Json adminCourses),
            (''user_courses'', Json adminCourses)] st)"

section \<open>The network and the rest of the browser environment\<close>

text \<open>
  The arguments of a \<^verbatim>\<open>fetch\<close> call: the URL, the \<^verbatim>\<open>method\<close> option (\<^verbatim>\<open>GET\<close> when
  the call gives none), the \<^verbatim>\<open>headers\<close> option in the order written, and the record
  whose \<^verbatim>\<open>JSON.stringify\<close> is the \<^verbatim>\<open>body\<close> option, if there is one.
\<close>

record request =
  url :: string
  http_method :: string
  headers :: "(string \<times> string) list"
  body :: "course option"

text \<open>
  What \<^verbatim>\<open>await fetch(...)\<close> yields: the promise rejects (\<open>NetworkFailure\<close>), or it
  resolves to a response with a status and a body. The body is kept as what
  \<^verbatim>\<open>response.json()\<close> makes of it: \<open>None\<close> when it is not valid JSON.
\<close>

datatype 'a fetch_result = NetworkFailure | Response nat "'a option"

definition ok :: "nat \<Rightarrow> bool" where
  "ok status = (200 \<le> status \<and> status \<le> 299)"

text \<open>
  Everything the client code reads from outside itself: the browser's decision on storage
  writes, \<^verbatim>\<open>window.location.hostname\<close>, the build-time \<^verbatim>\<open>API_BASE_URL\<close> of
  \<^verbatim>\<open>config/api.ts\<close>, the token returned by \<^verbatim>\<open>getToken()\<close>, the renderings of
  \<^verbatim>\<open>Date.now()\<close> and \<^verbatim>\<open>new Date().toISOString()\<close>, and the server's answer to a
  request on each of the three course endpoints.
\<close>

record env =
  accepts :: quota
  hostname :: string
  api_base :: string
  token :: "string option"
  clock_ms :: string
  clock_iso :: string
  list_courses :: "request \<Rightarrow> course list fetch_result"
  save_course :: "request \<Rightarrow> course fetch_result"
  delete_course :: "request \<Rightarrow> unit fetch_result"

text \<open>The truthy value of a string-valued property, if it has one.\<close>

definition truthy_val :: "string option \<Rightarrow> string option" where
  "truthy_val v = (case v of None \<Rightarrow> None | Some s \<Rightarrow> if s = [] then None else Some s)"

text \<open>\<^verbatim>\<open>a || d\<close> with a string \<open>d\<close> as the right operand.\<close>

definition or_else :: "string option \<Rightarrow> string \<Rightarrow> string" where
  "or_else a d = (case truthy_val a of Some s \<Rightarrow> s | None \<Rightarrow> d)"

section \<open>sync-courses-global.js: fetchMongoDBCourses and forceSync\<close>

definition API_BASE_URL :: "string \<Rightarrow> string" where
  "API_BASE_URL host =
     (if host = ''localhost'' \<or> host = ''127.0.0.1''
      then ''http://'' @ host @ '':5000/api''
      else ''/api'')"

definition COURSES_ENDPOINT :: "string \<Rightarrow> string" where
  "COURSES_ENDPOINT host = API_BASE_URL host @ ''/courses''"

definition fetchMongoDBCourses_request :: "env \<Rightarrow> bool \<Rightarrow> request" where
  "fetchMongoDBCourses_request e forceRefresh =
     \<lparr>url = (if forceRefresh
              then COURSES_ENDPOINT (hostname e) @ ''?_t='' @ clock_ms e
              else COURSES_ENDPOINT (hostname e)),
      http_method = ''GET'',
      headers = [(''Cache-Control'', ''no-cache, no-store, must-revalidate''),
                 (''Pragma'', ''no-cache''),
                 (''Expires'', ''0'')],
      body = None\<rparr>"

text \<open>The body of the \<^verbatim>\<open>try\<close> block of \<^verbatim>\<open>fetchMongoDBCourses\<close>.\<close>

definition fetchMongoDBCourses_try ::
    "env \<Rightarrow> bool \<Rightarrow> storage \<Rightarrow> (error + course list) \<times> storage" where
  "fetchMongoDBCourses_try e forceRefresh st =
     (case list_courses e (fetchMongoDBCourses_request e forceRefresh) of
        NetworkFailure \<Rightarrow> (Inl NetworkError, st)
      | Response status parsed \<Rightarrow>
          if \<not> ok status then (Inl (ApiError status), st)
          else (case parsed of
                  None \<Rightarrow> (Inl SyntaxError, st)
                | Some courses \<Rightarrow>
                    (case setItems (accepts e)
                            [(''adminCourses'', Json courses),
                             (''edutube_courses'', Json courses),
                             (''courses_data'', Json courses),
                             (''user_courses'', Json courses)] st of
                       (Some err, st') \<Rightarrow> (Inl err, st')
                     | (None, st') \<Rightarrow> (Inr courses, st'))))"

text \<open>The \<^verbatim>\<open>catch\<close> block logs the error and returns the empty array.\<close>

definition fetchMongoDBCourses ::
    "env \<Rightarrow> bool \<Rightarrow> storage \<Rightarrow> (error + course list) \<times> storage" where
  "fetchMongoDBCourses e forceRefresh st =
     (case fetchMongoDBCourses_try e forceRefresh st of
        (Inl err, st') \<Rightarrow> (Inr [], st')
      | (Inr courses, st') \<Rightarrow> (Inr courses, st'))"

definition forceSync :: "env \<Rightarrow> storage \<Rightarrow> int \<times> storage" where
  "forceSync e st =
     (case fetchMongoDBCourses e True st of
        (Inl err, st') \<Rightarrow> (-1, st')
      | (Inr mongoDbCourses, st') \<Rightarrow>
          if length mongoDbCourses > 0
          then (int (length mongoDbCourses), st')
          else (0, st'))"

section \<open>mongoSync: saveToMongoDB, deleteFromMongoDB, fetchFromMongoDB\<close>

definition bearer :: "env \<Rightarrow> string \<times> string" where
  "bearer e = (''Authorization'', ''Bearer '' @ or_else (token e) [])"

text \<open>
  The payload of \<^verbatim>\<open>saveToMongoDB\<close>: the course with an object category replaced by
  \<^verbatim>\<open>category._id || category.name || 'web-development'\<close>.
\<close>

definition saveToMongoDB_payload :: "course \<Rightarrow> course" where
  "saveToMongoDB_payload course =
     course\<lparr>category :=
       (case category course of
          CatObj oid i n \<Rightarrow> CatStr (or_else oid (or_else n ''web-development''))
        | other \<Rightarrow> other)\<rparr>"

definition saveToMongoDB_request :: "env \<Rightarrow> course \<Rightarrow> request" where
  "saveToMongoDB_request e course =
     \<lparr>url = (case truthy_val (c_id course) of
               Some i \<Rightarrow> api_base e @ ''/api/courses/'' @ i
             | None \<Rightarrow> api_base e @ ''/api/courses''),
      http_method = (case truthy_val (c_id course) of Some i \<Rightarrow> ''PUT'' | None \<Rightarrow> ''POST''),
      headers = [(''Content-Type'', ''application/json''), bearer e],
      body = Some (saveToMongoDB_payload course)\<rparr>"

definition saveToMongoDB :: "env \<Rightarrow> course \<Rightarrow> error + course" where
  "saveToMongoDB e course =
     (if \<not> truthy (token e) then Inl AuthRequired
      else (case save_course e (saveToMongoDB_request e course) of
              NetworkFailure \<Rightarrow> Inl NetworkError
            | Response status parsed \<Rightarrow>
                if \<not> ok status then Inl (ApiError status)
                else (case parsed of
                        None \<Rightarrow> Inl SyntaxError
                      | Some savedCourse \<Rightarrow> Inr savedCourse)))"



definition fetchFromMongoDB_request :: "env \<Rightarrow> request" where
  "fetchFromMongoDB_request e =
     \<lparr>url = api_base e @ ''/api/courses'',
      http_method = ''GET'',
      headers = (''Content-Type'', ''application/json'')
                # (if truthy (token e) then [bearer e] else []),
      body = None\<rparr>"

definition fetchFromMongoDB :: "env \<Rightarrow> error + course list" where
  "fetchFromMongoDB e =
     (case list_courses e (fetchFromMongoDB_request e) of
        NetworkFailure \<Rightarrow> Inl NetworkError
      | Response status parsed \<Rightarrow>
          if \<not> ok status then Inl (ApiError status)
          else (case parsed of
                  None \<Rightarrow> Inl SyntaxError
                | Some courses \<Rightarrow> Inr courses))"

definition verifyMongoDBConnection :: "env \<Rightarrow> nat" where
  "verifyMongoDBConnection e =
     (case fetchFromMongoDB e of Inr courses \<Rightarrow> length courses | Inl err \<Rightarrow> 0)"

section \<open>Course utilities: saveCourse, getCourses, deleteCourse\<close>

definition STORAGE_KEY :: string where
  "STORAGE_KEY = ''edutube_courses''"

text \<open>
  \<^verbatim>\<open>verifyMongoDBSync()\<close> with its default \<^verbatim>\<open>verbose = false\<close>: the count of
  \<^verbatim>\<open>verifyMongoDBConnection\<close>, which has already turned every failure into 0.
\<close>

definition verifyMongoDBSync :: "env \<Rightarrow> nat" where
  "verifyMongoDBSync e = verifyMongoDBConnection e"

text \<open>
  The \<^verbatim>\<open>courseExists\<close> block of \<^verbatim>\<open>saveCourse\<close>: \<^verbatim>\<open>some\<close> by \<^verbatim>\<open>_id\<close>, then
  \<^verbatim>\<open>push\<close> or a \<^verbatim>\<open>map\<close> that replaces every record with that \<^verbatim>\<open>_id\<close>.
\<close>

definition add_or_update :: "course \<Rightarrow> course list \<Rightarrow> course list" where
  "add_or_update updatedCourse courses =
     (let courseExists = list_ex (\<lambda>c. c_id c = c_id updatedCourse) courses
      in if \<not> courseExists
         then courses @ [updatedCourse]
         else map (\<lambda>c. if c_id c = c_id updatedCourse then updatedCourse else c) courses)"

text \<open>
  \<^verbatim>\<open>saveCourse\<close> saves remotely first and rethrows every failure. The count it asks
  \<^verbatim>\<open>verifyMongoDBSync\<close> for at the end is only logged.
\<close>

definition saveCourse :: "env \<Rightarrow> course \<Rightarrow> storage \<Rightarrow> (error + course) \<times> storage" where
  "saveCourse e course st =
     (case saveToMongoDB e course of
        Inl err \<Rightarrow> (Inl err, st)
      | Inr savedCourse \<Rightarrow>
          if \<not> truthy (c_id savedCourse) then (Inl InvalidCourse, st)
          else
            (let courses = read_courses st STORAGE_KEY;
                 updatedCourse = course\<lparr>c_id := c_id savedCourse, updatedAt := Some (clock_iso e)\<rparr>;
                 courses' = add_or_update updatedCourse courses
             in (case setItems (accepts e)
                        [(STORAGE_KEY, Json courses'),
                         (''adminCourses'', Json courses'),
                         (''courses_data'', Json courses'),
                         (''user_courses'', Json courses')] st of
                   (Some err, st') \<Rightarrow> (Inl err, st')
                 | (None, st') \<Rightarrow>
                     (let mongoCount = verifyMongoDBSync e in (Inr updatedCourse, st')))))"

text \<open>
  The forced-refresh block of \<^verbatim>\<open>getCourses\<close>: \<open>Some\<close> is its early
  \<^verbatim>\<open>return mongoDbCourses\<close>; \<open>None\<close> is falling through to the read of local storage,
  after an empty remote list or after an error that the inner \<^verbatim>\<open>catch\<close> logged.
\<close>

definition getCourses_refresh :: "env \<Rightarrow> storage \<Rightarrow> course list option \<times> storage" where
  "getCourses_refresh e st =
     (case fetchFromMongoDB e of
        Inl err \<Rightarrow> (None, st)
      | Inr mongoDbCourses \<Rightarrow>
          if length mongoDbCourses > 0
          then (case setItems (accepts e)
                       [(STORAGE_KEY, Json mongoDbCourses),
                        (''adminCourses'', Json mongoDbCourses),
                        (''courses_data'', Json mongoDbCourses),
                        (''user_courses'', Json mongoDbCourses)] st of
                  (Some err, st') \<Rightarrow> (None, st')
                | (None, st') \<Rightarrow> (Some mongoDbCourses, st'))
          else (None, st))"

definition getCourses :: "env \<Rightarrow> bool \<Rightarrow> storage \<Rightarrow> course list \<times> storage" where
  "getCourses e forceRefresh st =
     (case (if forceRefresh then getCourses_refresh e st else (None, st)) of
        (Some mongoDbCourses, st') \<Rightarrow> (mongoDbCourses, st')
      | (None, st') \<Rightarrow> (read_courses st' STORAGE_KEY, st'))"


section \<open>sync-courses-global.js: the auto-refresh poller\<close>

text \<open>
  The poller's state: the variable \<^verbatim>\<open>refreshInterval\<close> (\<open>None\<close> is \<^verbatim>\<open>null\<close>), the
  interval timers the browser is running, each with its handle and its period, the handle
  \<^verbatim>\<open>setInterval\<close> returns next, and the number of \<^verbatim>\<open>fetchMongoDBCourses\<close> calls
  that have been started and have not settled yet.
\<close>

record poller =
  refreshInterval :: "nat option"
  timers :: "(nat \<times> nat) list"
  next_handle :: nat
  in_flight :: nat

definition clearInterval :: "nat \<Rightarrow> poller \<Rightarrow> poller" where
  "clearInterval h p = p\<lparr>timers := filter (\<lambda>t. fst t \<noteq> h) (timers p)\<rparr>"

definition setInterval :: "nat \<Rightarrow> poller \<Rightarrow> nat \<times> poller" where
  "setInterval ms p =
     (next_handle p,
      p\<lparr>timers := timers p @ [(next_handle p, ms)], next_handle := Suc (next_handle p)\<rparr>)"

text \<open>
  A call of \<^verbatim>\<open>fetchMongoDBCourses(true)\<close> runs up to its \<^verbatim>\<open>await fetch(...)\<close> and
  suspends there: one more call is in flight.
\<close>

definition start_fetch :: "poller \<Rightarrow> poller" where
  "start_fetch p = p\<lparr>in_flight := Suc (in_flight p)\<rparr>"

definition startAutoRefresh :: "nat \<Rightarrow> poller \<Rightarrow> bool \<times> poller" where
  "startAutoRefresh intervalMs p =
     (let p1 = (case refreshInterval p of
                  None \<Rightarrow> p
                | Some h \<Rightarrow> if h \<noteq> 0 then clearInterval h p else p);
          p2 = start_fetch p1;
          (h', p3) = setInterval intervalMs p2
      in (True, p3\<lparr>refreshInterval := Some h'\<rparr>))"

definition stopAutoRefresh :: "poller \<Rightarrow> bool \<times> poller" where
  "stopAutoRefresh p =
     (case refreshInterval p of
        None \<Rightarrow> (False, p)
      | Some h \<Rightarrow>
          if h \<noteq> 0 then (True, (clearInterval h p)\<lparr>refreshInterval := None\<rparr>)
          else (False, p))"

text \<open>
  The callback given to \<^verbatim>\<open>setInterval\<close>: it calls \<^verbatim>\<open>fetchMongoDBCourses(true)\<close>
  and awaits it, with no test of whether an earlier call is still pending.
\<close>

definition interval_callback :: "poller \<Rightarrow> poller" where
  "interval_callback p = start_fetch p"

text \<open>
  What can happen to the poller: a call of \<^verbatim>\<open>startAutoRefresh\<close> or of
  \<^verbatim>\<open>stopAutoRefresh\<close>, the browser firing the timer with a given handle, and a pending
  fetch settling.
\<close>

datatype event = Start nat | Stop | Tick nat | Settle

definition active :: "poller \<Rightarrow> nat \<Rightarrow> bool" where
  "active p h = list_ex (\<lambda>t. fst t = h) (timers p)"

definition step :: "poller \<Rightarrow> event \<Rightarrow> poller" where
  "step p ev =
     (case ev of
        Start ms \<Rightarrow> snd (startAutoRefresh ms p)
      | Stop \<Rightarrow> snd (stopAutoRefresh p)
      | Tick h \<Rightarrow> if active p h then interval_callback p else p
      | Settle \<Rightarrow> if in_flight p = 0 then p else p\<lparr>in_flight := in_flight p - 1\<rparr>)"

definition page_load :: poller where
  "page_load = \<lparr>refreshInterval = None, timers = [], next_handle = 1, in_flight = 0\<rparr>"

definition run :: "event list \<Rightarrow> poller" where
  "run evs = foldl step page_load evs"

text \<open>
  A run in which every fetch has settled before the next one starts, as happens when the
  interval is longer than the latency of a fetch.
\<close>

definition starts_fetch :: "poller \<Rightarrow> event \<Rightarrow> bool" where
  "starts_fetch p ev =
     (case ev of Start ms \<Rightarrow> True | Stop \<Rightarrow> False | Tick h \<Rightarrow> active p h | Settle \<Rightarrow> False)"

fun settled_before_next :: "poller \<Rightarrow> event list \<Rightarrow> bool" where
  "settled_before_next p [] = True"
| "settled_before_next p (ev # evs) =
     ((if starts_fetch p ev then in_flight p = 0 else True)
      \<and> settled_before_next (step p ev) evs)"

section \<open>The server's treatment of the category\<close>

text \<open>The getter and the setter of \<^verbatim>\<open>CourseSchema.category\<close>.\<close>

definition category_get :: "category \<Rightarrow> category" where
  "category_get v =
     (case v of
        CatObj oid i n \<Rightarrow> if truthy n then v else v
      | other \<Rightarrow> v)"

definition category_set :: "category \<Rightarrow> category" where
  "category_set v =
     (case v of
        CatObj oid i n \<Rightarrow>
          (case truthy_val oid of
             Some a \<Rightarrow> CatStr a
           | None \<Rightarrow> (case truthy_val i of Some b \<Rightarrow> CatStr b | None \<Rightarrow> v))
      | other \<Rightarrow> v)"

text \<open>
  The category processing of \<^verbatim>\<open>POST /api/courses\<close>. \<open>findById s\<close> is the
  \<^verbatim>\<open>_id\<close> of the category document that \<^verbatim>\<open>Category.findById(s)\<close> finds; \<open>None\<close>
  when it finds none or the lookup throws, in which case the string is used as it is.
\<close>

definition POST_category :: "(string \<Rightarrow> string option) \<Rightarrow> category \<Rightarrow> category" where
  "POST_category findById cat =
     (case cat of
        NoCategory \<Rightarrow> NoCategory
      | CatStr s \<Rightarrow> (case findById s of Some oid \<Rightarrow> CatStr oid | None \<Rightarrow> CatStr s)
      | CatObj oid i n \<Rightarrow> (case truthy_val oid of Some a \<Rightarrow> CatStr a | None \<Rightarrow> cat))"

text \<open>The embedded form of a category is the object form.\<close>

definition embedded :: "category \<Rightarrow> bool" where
  "embedded v = (case v of CatObj oid i n \<Rightarrow> True | other \<Rightarrow> False)"

section \<open>Records of one identity\<close>

text \<open>The records of a list whose \<^verbatim>\<open>_id\<close> is \<open>k\<close>; \<open>k = None\<close> selects the pending ones.\<close>

definition with_id :: "string option \<Rightarrow> course list \<Rightarrow> course list" where
  "with_id k cs = filter (\<lambda>c. c_id c = k) cs"


section \<open>CoursesPage: the request of loadCourses\<close>

text \<open>
  \<^verbatim>\<open>API_ENDPOINTS.courses\<close> is \<^verbatim>\<open>`${API_BASE_URL}/api/courses`\<close>; \<^verbatim>\<open>loadCourses\<close>
  appends a timestamp and sends the three cache headers.
\<close>

definition loadCourses_request :: "env \<Rightarrow> request" where
  "loadCourses_request e =
     \<lparr>url = api_base e @ ''/api/courses'' @ ''?_t='' @ clock_ms e,
      http_method = ''GET'',
      headers = [(''Cache-Control'', ''no-cache, no-store, must-revalidate''),
                 (''Pragma'', ''no-cache''),
                 (''Expires'', ''0'')],
      body = None\<rparr>"

section \<open>Cache-defeating requests\<close>

text \<open>A request defeats caches when its \<^verbatim>\<open>Cache-Control\<close> header names \<^verbatim>\<open>no-store\<close>.\<close>

definition no_store :: "request \<Rightarrow> bool" where
  "no_store r =
     (case map_of (headers r) ''Cache-Control'' of
        None \<Rightarrow> False
      | Some v \<Rightarrow> sublist ''no-store'' v)"

section \<open>Sample data\<close>

definition sample :: "string \<Rightarrow> string \<Rightarrow> course" where
  "sample i t =
     \<lparr>c_id = Some i, title = t, instructor = ''Ada'',
      category = CatObj (Some ''c1'') None (Some ''Web''), updatedAt = None\<rparr>"

text \<open>A mirror whose four slots all hold the same list.\<close>

definition mirror_of :: "course list \<Rightarrow> storage" where
  "mirror_of cs =
     [''adminCourses'' \<mapsto> Json cs, ''edutube_courses'' \<mapsto> Json cs,
      ''courses_data'' \<mapsto> Json cs, ''user_courses'' \<mapsto> Json cs]"

text \<open>
  A browser with a logged-in user whose every request gets the given answer from the list
  endpoint and the given status from the delete endpoint; saving is not available.
\<close>

definition browser :: "quota \<Rightarrow> course list fetch_result \<Rightarrow> nat \<Rightarrow> env" where
  "browser q listing del_status =
     \<lparr>accepts = q, hostname = ''localhost'', api_base = ''http://localhost:5000'',
      token = Some ''t'', clock_ms = ''1700000000000'',
      clock_iso = ''2023-11-14T22:13:20.000Z'',
      list_courses = (\<lambda>r. listing),
      save_course = (\<lambda>r. NetworkFailure),
      delete_course = (\<lambda>r. Response del_status None)\<rparr>"

text \<open>
  The same browser, offline for listing and deleting, whose save endpoint answers 200 with
  the given record; a pending record with a title; and a category collection in which no
  id is found.
\<close>

definition saving_browser :: "course \<Rightarrow> env" where
  "saving_browser answer =
     (browser unlimited NetworkFailure 200)\<lparr>save_course := (\<lambda>r. Response 200 (Some answer))\<rparr>"

definition pending :: "string \<Rightarrow> course" where
  "pending t = (sample [] t)\<lparr>c_id := None\<rparr>"

definition no_category :: "string \<Rightarrow> string option" where
  "no_category s = None"

section \<open>The poller's invariant\<close>

text \<open>
  The timers the browser runs are exactly the one whose handle \<^verbatim>\<open>refreshInterval\<close> holds, if
  it holds one; handles are positive.
\<close>

definition poller_inv :: "poller \<Rightarrow> bool" where
  "poller_inv p =
     (0 < next_handle p
      \<and> map fst (timers p) = (case refreshInterval p of None \<Rightarrow> [] | Some h \<Rightarrow> [h])
      \<and> (case refreshInterval p of None \<Rightarrow> True | Some h \<Rightarrow> 0 < h))"

section \<open>CoursesPage: what loadCourses writes\<close>


section \<open>Runs of writes\<close>




text \<open>A category collection in which every id is found, under that id.\<close>

definition found_category :: "string \<Rightarrow> string option" where
  "found_category s = Some s"

text \<open>A pending record with the given category.\<close>

definition categorised :: "category \<Rightarrow> course" where
  "categorised cat = (pending ''New'')\<lparr>category := cat\<rparr>"



section \<open>What counts as a failed listing\<close>

text \<open>
  The remote \<^verbatim>\<open>list()\<close> call fails when the request is rejected, when the status is not
  a success status, or when the body cannot be parsed.
\<close>

definition list_failed :: "course list fetch_result \<Rightarrow> bool" where
  "list_failed r =
     (case r of
        NetworkFailure \<Rightarrow> True
      | Response status parsed \<Rightarrow> (if ok status then parsed = None else True))"

section \<open>Failure of the remote listing\<close>

lemma fetchMongoDBCourses_try_failed:
  "list_failed (list_courses e (fetchMongoDBCourses_request e f)) \<Longrightarrow>
   \<exists>err. fetchMongoDBCourses_try e f st = (Inl err, st)"
  by (auto simp: list_failed_def fetchMongoDBCourses_try_def
           split: fetch_result.splits if_splits option.splits)

lemma fetchMongoDBCourses_failed:
  "list_failed (list_courses e (fetchMongoDBCourses_request e f)) \<Longrightarrow>
   fetchMongoDBCourses e f st = (Inr [], st)"
  using fetchMongoDBCourses_try_failed [of e f st]
  by (auto simp: fetchMongoDBCourses_def)

lemma fetchMongoDBCourses_returns:
  "\<exists>courses st'. fetchMongoDBCourses e f st = (Inr courses, st')"
  by (auto simp: fetchMongoDBCourses_def split: prod.splits sum.splits)

lemma fetchFromMongoDB_failed:
  "list_failed (list_courses e (fetchFromMongoDB_request e)) \<Longrightarrow>
   \<exists>err. fetchFromMongoDB e = Inl err"
  by (auto simp: list_failed_def fetchFromMongoDB_def
           split: fetch_result.splits if_splits option.splits)

lemma getCourses_failed:
  "list_failed (list_courses e (fetchFromMongoDB_request e)) \<Longrightarrow>
   getCourses e True st = (read_courses st STORAGE_KEY, st)"
  using fetchFromMongoDB_failed [of e]
  by (auto simp: getCourses_def getCourses_refresh_def)

text \<open>
  C9. \<^verbatim>\<open>forceSync\<close> never returns its error sentinel \<open>-1\<close>: \<^verbatim>\<open>fetchMongoDBCourses\<close>
  always returns normally, so the \<^verbatim>\<open>catch\<close> branch of \<^verbatim>\<open>forceSync\<close> is never taken;
  a failed listing is reported as \<open>0\<close>, the same value as a successful listing of an empty
  catalog.
\<close>

theorem forceSync_never_error_sentinel:
  "fst (forceSync e st) \<noteq> -1
   \<and> (\<exists>courses st'. fetchMongoDBCourses e True st = (Inr courses, st'))
   \<and> (list_failed (list_courses e (fetchMongoDBCourses_request e True))
        \<longrightarrow> fst (forceSync e st) = 0)
   \<and> (ok status \<and> list_courses e (fetchMongoDBCourses_request e True) = Response status (Some [])
        \<longrightarrow> fst (forceSync e st) = 0)"
proof -
  obtain courses st' where r: "fetchMongoDBCourses e True st = (Inr courses, st')"
    using fetchMongoDBCourses_returns by blast
  have sentinel: "fst (forceSync e st) \<noteq> -1"
    by (simp add: forceSync_def r)
  have failed: "fst (forceSync e st) = 0"
    if "list_failed (list_courses e (fetchMongoDBCourses_request e True))"
    using fetchMongoDBCourses_failed [OF that, of st] by (simp add: forceSync_def)
  have empty: "fst (forceSync e st) = 0"
    if "ok status \<and> list_courses e (fetchMongoDBCourses_request e True) = Response status (Some [])"
    using that
    by (auto simp: forceSync_def fetchMongoDBCourses_def fetchMongoDBCourses_try_def
             split: prod.splits sum.splits option.splits)
  from sentinel r failed empty show ?thesis by blast
qed

theorem forceSync_never_error_sentinel_witness:
  "list_failed (list_courses (browser unlimited NetworkFailure 200)
                  (fetchMongoDBCourses_request (browser unlimited NetworkFailure 200) True))
   \<and> fst (forceSync (browser unlimited NetworkFailure 200) (mirror_of [sample ''1'' ''A''])) = 0
   \<and> ok 200
   \<and> list_courses (browser unlimited (Response 200 (Some [])) 200)
         (fetchMongoDBCourses_request (browser unlimited (Response 200 (Some [])) 200) True)
       = Response 200 (Some [])
   \<and> fst (forceSync (browser unlimited (Response 200 (Some [])) 200) (mirror_of [sample ''1'' ''A''])) = 0
   \<and> fst (forceSync (browser unlimited (Response 500 None) 200) (mirror_of [])) \<noteq> -1"
proof -
  let ?off = "browser unlimited NetworkFailure 200"
  let ?emp = "browser unlimited (Response 200 (Some [])) 200"
  have f: "list_failed (list_courses ?off (fetchMongoDBCourses_request ?off True))"
    by (simp add: list_failed_def browser_def)
  have k: "ok 200" by (simp add: ok_def)
  have l: "list_courses ?emp (fetchMongoDBCourses_request ?emp True) = Response 200 (Some [])"
    by (simp add: browser_def)
  show ?thesis
    using f k l
      forceSync_never_error_sentinel [of ?off "mirror_of [sample ''1'' ''A'']" 200]
      forceSync_never_error_sentinel [of ?emp "mirror_of [sample ''1'' ''A'']" 200]
      forceSync_never_error_sentinel [of "browser unlimited (Response 500 None) 200" "mirror_of []" 200]
    by blast
qed

text \<open>
  C2, as the code has it. When the remote listing fails, no storage slot changes.
  \<^verbatim>\<open>getCourses(true)\<close> then returns the previous local snapshot, read from the
  \<^verbatim>\<open>edutube_courses\<close> slot (empty when that slot is absent or unparseable);
  \<^verbatim>\<open>fetchMongoDBCourses\<close> returns the empty array.
\<close>

theorem pullAndMerge_failure_keeps_mirror:
  "(list_failed (list_courses e (fetchMongoDBCourses_request e f))
      \<longrightarrow> fetchMongoDBCourses e f st = (Inr [], st))
   \<and> (list_failed (list_courses e (fetchFromMongoDB_request e))
      \<longrightarrow> getCourses e True st = (read_courses st STORAGE_KEY, st))"
  using fetchMongoDBCourses_failed [of e f st] getCourses_failed [of e st] by blast

theorem pullAndMerge_failure_keeps_mirror_witness:
  "list_failed (list_courses (browser unlimited (Response 503 None) 200)
                  (fetchMongoDBCourses_request (browser unlimited (Response 503 None) 200) True))
   \<and> fetchMongoDBCourses (browser unlimited (Response 503 None) 200) True
         (mirror_of [sample ''1'' ''A''])
       = (Inr [], mirror_of [sample ''1'' ''A''])
   \<and> list_failed (list_courses (browser unlimited (Response 503 None) 200)
                  (fetchFromMongoDB_request (browser unlimited (Response 503 None) 200)))
   \<and> getCourses (browser unlimited (Response 503 None) 200) True (mirror_of [sample ''1'' ''A''])
       = ([sample ''1'' ''A''], mirror_of [sample ''1'' ''A''])"
proof -
  let ?b = "browser unlimited (Response 503 None) 200"
  let ?m = "mirror_of [sample ''1'' ''A'']"
  have f1: "list_failed (list_courses ?b (fetchMongoDBCourses_request ?b True))"
    by (simp add: list_failed_def browser_def ok_def)
  have f2: "list_failed (list_courses ?b (fetchFromMongoDB_request ?b))"
    by (simp add: list_failed_def browser_def ok_def)
  have local: "read_courses ?m STORAGE_KEY = [sample ''1'' ''A'']"
    by (simp add: read_courses_def mirror_of_def STORAGE_KEY_def slot_truthy_def JSON_parse_def)
  show ?thesis
    using f1 f2 local pullAndMerge_failure_keeps_mirror [of ?b True ?m] by simp
qed

text \<open>
  C2 as stated fails for \<^verbatim>\<open>fetchMongoDBCourses\<close>: with a record in every slot and the
  server answering 503, it returns the empty array, not the stored record.
\<close>

theorem pullAndMerge_failure_counterexample:
  "list_failed (list_courses (browser unlimited (Response 503 None) 200)
                  (fetchMongoDBCourses_request (browser unlimited (Response 503 None) 200) True))
   \<and> read_courses (mirror_of [sample ''1'' ''A'']) ''adminCourses'' = [sample ''1'' ''A'']
   \<and> read_courses (mirror_of [sample ''1'' ''A'']) ''edutube_courses'' = [sample ''1'' ''A'']
   \<and> fst (fetchMongoDBCourses (browser unlimited (Response 503 None) 200) True
            (mirror_of [sample ''1'' ''A''])) = Inr []"
proof -
  let ?b = "browser unlimited (Response 503 None) 200"
  have f1: "list_failed (list_courses ?b (fetchMongoDBCourses_request ?b True))"
    by (simp add: list_failed_def browser_def ok_def)
  have "fst (fetchMongoDBCourses ?b True (mirror_of [sample ''1'' ''A''])) = Inr []"
    using fetchMongoDBCourses_failed [OF f1] by simp
  with f1 show ?thesis
    by (simp add: read_courses_def mirror_of_def slot_truthy_def JSON_parse_def)
qed

text \<open>
  C8. \<^verbatim>\<open>getCourses(true)\<close> against a remote that answers successfully with the empty
  list writes nothing: every slot is as before, and the call returns what the
  \<^verbatim>\<open>edutube_courses\<close> slot held, so a record deleted remotely as the last one is still
  returned and still stored.
\<close>

theorem getCourses_empty_remote_keeps_mirror:
  assumes "ok status"
    and "list_courses e (fetchFromMongoDB_request e) = Response status (Some [])"
  shows "getCourses e True st = (read_courses st STORAGE_KEY, st)"
  using assms by (simp add: getCourses_def getCourses_refresh_def fetchFromMongoDB_def)

theorem getCourses_empty_remote_keeps_mirror_witness:
  "ok 200
   \<and> list_courses (browser unlimited (Response 200 (Some [])) 200)
         (fetchFromMongoDB_request (browser unlimited (Response 200 (Some [])) 200))
       = Response 200 (Some [])
   \<and> getCourses (browser unlimited (Response 200 (Some [])) 200) True
         (mirror_of [sample ''1'' ''A''])
       = ([sample ''1'' ''A''], mirror_of [sample ''1'' ''A''])"
proof -
  let ?b = "browser unlimited (Response 200 (Some [])) 200"
  let ?m = "mirror_of [sample ''1'' ''A'']"
  have k: "ok 200" by (simp add: ok_def)
  have l: "list_courses ?b (fetchFromMongoDB_request ?b) = Response 200 (Some [])"
    by (simp add: browser_def)
  have local: "read_courses ?m STORAGE_KEY = [sample ''1'' ''A'']"
    by (simp add: read_courses_def mirror_of_def STORAGE_KEY_def slot_truthy_def JSON_parse_def)
  show ?thesis
    using k l local getCourses_empty_remote_keeps_mirror [OF k l, of ?m] by simp
qed

text \<open>
  C7. The listing request of \<^verbatim>\<open>fetchFromMongoDB\<close>, which \<^verbatim>\<open>getCourses(true)\<close> issues,
  carries no \<^verbatim>\<open>Cache-Control\<close> header at all, while the listing requests of
  \<^verbatim>\<open>fetchMongoDBCourses\<close> and of \<^verbatim>\<open>loadCourses\<close> both carry \<^verbatim>\<open>no-store\<close>.
\<close>

theorem fetchFromMongoDB_request_cacheable:
  "\<not> no_store (fetchFromMongoDB_request e)
   \<and> map_of (headers (fetchFromMongoDB_request e)) ''Cache-Control'' = None
   \<and> no_store (fetchMongoDBCourses_request e f)
   \<and> no_store (loadCourses_request e)"
proof -
  have s: "sublist ''no-store'' ''no-cache, no-store, must-revalidate''"
    unfolding sublist_def
    by (rule exI [of _ "''no-cache, ''"], rule exI [of _ "'', must-revalidate''"]) simp
  have a: "map_of (headers (fetchFromMongoDB_request e)) ''Cache-Control'' = None"
    by (simp add: fetchFromMongoDB_request_def bearer_def)
  have b: "no_store (fetchMongoDBCourses_request e f)"
    using s by (simp add: no_store_def fetchMongoDBCourses_request_def)
  have c: "no_store (loadCourses_request e)"
    using s by (simp add: no_store_def loadCourses_request_def)
  from a b c show ?thesis by (simp add: no_store_def)
qed

section \<open>Writing the four slots\<close>

lemma setItems_four:
  assumes "setItems q [(k1, v1), (k2, v2), (k3, v3), (k4, v4)] st = (None, st')"
  shows "st' = st(k1 \<mapsto> v1, k2 \<mapsto> v2, k3 \<mapsto> v3, k4 \<mapsto> v4)"
  using assms by (simp split: if_splits)

lemmas storage_eval =
  read_courses_def slot_truthy_def JSON_parse_def mirror_of_def STORAGE_KEY_def
  mirror_keys_def slot_size_def quota_of_def unlimited_def

lemmas client_eval =
  browser_def saving_browser_def pending_def no_category_def ok_def truthy_def truthy_val_def
  or_else_def bearer_def sample_def

section \<open>The poller\<close>

lemma poller_inv_page_load: "poller_inv page_load"
  by (simp add: poller_inv_def page_load_def)

lemma poller_inv_step: "poller_inv p \<Longrightarrow> poller_inv (step p ev)"
  by (cases ev)
     (auto simp: poller_inv_def step_def startAutoRefresh_def stopAutoRefresh_def
                 clearInterval_def setInterval_def start_fetch_def interval_callback_def Let_def
           split: option.splits if_splits)

lemma poller_inv_foldl: "poller_inv p \<Longrightarrow> poller_inv (foldl step p evs)"
  by (induction evs arbitrary: p) (simp_all add: poller_inv_step)

lemma poller_inv_one_timer: "poller_inv p \<Longrightarrow> length (timers p) \<le> 1"
proof -
  assume "poller_inv p"
  then have "length (map fst (timers p)) \<le> 1"
    by (auto simp: poller_inv_def split: option.splits)
  then show ?thesis by simp
qed

lemma step_in_flight_bound:
  assumes "if starts_fetch p ev then in_flight p = 0 else True" and "in_flight p \<le> 1"
  shows "in_flight (step p ev) \<le> 1"
  using assms
  by (cases ev)
     (auto simp: step_def starts_fetch_def startAutoRefresh_def stopAutoRefresh_def
                 clearInterval_def setInterval_def start_fetch_def interval_callback_def Let_def
           split: option.splits if_splits)

lemma settled_in_flight_bound:
  "settled_before_next p evs \<Longrightarrow> in_flight p \<le> 1 \<Longrightarrow> in_flight (foldl step p evs) \<le> 1"
proof (induction evs arbitrary: p)
  case Nil
  then show ?case by simp
next
  case (Cons ev evs)
  from Cons.prems have "in_flight (step p ev) \<le> 1"
    using step_in_flight_bound [of p ev] by simp
  with Cons show ?case by simp
qed

text \<open>
  C4, as the code has it. \<^verbatim>\<open>startAutoRefresh\<close> clears the timer it started before, so
  at most one timer is ever running; but the timer's callback has no in-flight test: every
  tick of the running timer starts one more \<^verbatim>\<open>fetchMongoDBCourses\<close> call. At most one
  call is in flight only on runs where each call settles before the next one starts.
\<close>

theorem poller_one_timer_never_skips:
  "length (timers (run evs)) \<le> 1
   \<and> (active p h \<longrightarrow> in_flight (step p (Tick h)) = Suc (in_flight p))
   \<and> (settled_before_next page_load evs \<longrightarrow> in_flight (run evs) \<le> 1)"
proof (intro conjI impI)
  show "length (timers (run evs)) \<le> 1"
    unfolding run_def
    by (rule poller_inv_one_timer, rule poller_inv_foldl, rule poller_inv_page_load)
next
  assume "active p h"
  then show "in_flight (step p (Tick h)) = Suc (in_flight p)"
    by (simp add: step_def interval_callback_def start_fetch_def)
next
  assume "settled_before_next page_load evs"
  then show "in_flight (run evs) \<le> 1"
    unfolding run_def by (rule settled_in_flight_bound) (simp add: page_load_def)
qed

lemmas poller_eval =
  run_def step_def page_load_def startAutoRefresh_def stopAutoRefresh_def clearInterval_def
  setInterval_def start_fetch_def interval_callback_def active_def starts_fetch_def Let_def

theorem poller_one_timer_never_skips_witness:
  "active (run [Start 5000]) 1
   \<and> in_flight (step (run [Start 5000]) (Tick 1)) = 2
   \<and> settled_before_next page_load [Start 5000, Settle, Tick 1, Settle, Tick 1]
   \<and> in_flight (run [Start 5000, Settle, Tick 1, Settle, Tick 1]) = 1
   \<and> length (timers (run [Start 5000, Start 1000, Tick 2])) = 1"
proof -
  have a: "active (run [Start 5000]) 1"
    by (simp add: poller_eval)
  have s: "settled_before_next page_load [Start 5000, Settle, Tick 1, Settle, Tick 1]"
    by (simp add: poller_eval)
  have i: "in_flight (run [Start 5000]) = 1"
    by (simp add: poller_eval)
  have r: "in_flight (run [Start 5000, Settle, Tick 1, Settle, Tick 1]) \<noteq> 0"
    by (simp add: poller_eval)
  have t: "length (timers (run [Start 5000, Start 1000, Tick 2])) \<noteq> 0"
    by (simp add: poller_eval)
  note w1 = poller_one_timer_never_skips
      [of "[Start 5000, Settle, Tick 1, Settle, Tick 1]" "run [Start 5000]" 1]
  note w2 = poller_one_timer_never_skips
      [of "[Start 5000, Start 1000, Tick 2]" "run [Start 5000]" 1]
  from w1 a i have c2: "in_flight (step (run [Start 5000]) (Tick 1)) = 2"
    by simp
  from w1 s r have c3: "in_flight (run [Start 5000, Settle, Tick 1, Settle, Tick 1]) = 1"
    by linarith
  from w2 t have c1: "length (timers (run [Start 5000, Start 1000, Tick 2])) = 1"
    by linarith
  from a s c1 c2 c3 show ?thesis by blast
qed

text \<open>
  C4 as stated fails. The poller is started, its initial fetch settles, and the timer then
  fires twice before the first tick's fetch settles: the second tick is not skipped, and
  two calls are in flight.
\<close>

theorem poller_overlap_counterexample:
  "active (run [Start 1000, Settle, Tick 1]) 1
   \<and> in_flight (run [Start 1000, Settle, Tick 1]) = 1
   \<and> in_flight (run [Start 1000, Settle, Tick 1, Tick 1]) = 2"
  by (simp add: poller_eval)

section \<open>Saving a course\<close>

lemma saveCourse_returned:
  assumes "saveCourse e c st = (Inr saved, st')"
  obtains sc where "saveToMongoDB e c = Inr sc" and "truthy (c_id sc)"
    and "saved = c\<lparr>c_id := c_id sc, updatedAt := Some (clock_iso e)\<rparr>"
    and "st' = st(STORAGE_KEY \<mapsto> Json (add_or_update saved (read_courses st STORAGE_KEY)),
                  ''adminCourses'' \<mapsto> Json (add_or_update saved (read_courses st STORAGE_KEY)),
                  ''courses_data'' \<mapsto> Json (add_or_update saved (read_courses st STORAGE_KEY)),
                  ''user_courses'' \<mapsto> Json (add_or_update saved (read_courses st STORAGE_KEY)))"
proof -
  from assms obtain sc where sc: "saveToMongoDB e c = Inr sc" and t: "truthy (c_id sc)"
    unfolding saveCourse_def by (auto split: sum.splits if_splits)
  let ?cs = "add_or_update (c\<lparr>c_id := c_id sc, updatedAt := Some (clock_iso e)\<rparr>)
               (read_courses st STORAGE_KEY)"
  from assms sc t have
    w: "setItems (accepts e)
          [(STORAGE_KEY, Json ?cs), (''adminCourses'', Json ?cs),
           (''courses_data'', Json ?cs), (''user_courses'', Json ?cs)] st = (None, st')"
    and s: "saved = c\<lparr>c_id := c_id sc, updatedAt := Some (clock_iso e)\<rparr>"
    unfolding saveCourse_def Let_def
    by (auto simp del: setItems.simps split: if_splits option.splits prod.splits)
  from setItems_four [OF w] s have
    "st' = st(STORAGE_KEY \<mapsto> Json (add_or_update saved (read_courses st STORAGE_KEY)),
              ''adminCourses'' \<mapsto> Json (add_or_update saved (read_courses st STORAGE_KEY)),
              ''courses_data'' \<mapsto> Json (add_or_update saved (read_courses st STORAGE_KEY)),
              ''user_courses'' \<mapsto> Json (add_or_update saved (read_courses st STORAGE_KEY)))"
    by simp
  with sc t s show thesis by (rule that)
qed

lemma saveCourse_mirror:
  assumes "saveCourse e c st = (Inr saved, st')"
  shows "read_courses st' STORAGE_KEY = add_or_update saved (read_courses st STORAGE_KEY)"
proof (rule saveCourse_returned [OF assms])
  assume
    "st' = st(STORAGE_KEY \<mapsto> Json (add_or_update saved (read_courses st STORAGE_KEY)),
              ''adminCourses'' \<mapsto> Json (add_or_update saved (read_courses st STORAGE_KEY)),
              ''courses_data'' \<mapsto> Json (add_or_update saved (read_courses st STORAGE_KEY)),
              ''user_courses'' \<mapsto> Json (add_or_update saved (read_courses st STORAGE_KEY)))"
  then show ?thesis
    by (simp add: read_courses_def STORAGE_KEY_def slot_truthy_def JSON_parse_def)
qed

lemma add_or_update_member: "u \<in> set (add_or_update u cs)"
  by (auto simp: add_or_update_def Let_def list_ex_iff image_iff)

lemma saveCourse_stored:
  assumes "saveCourse e c st = (Inr saved, st')"
  shows "category saved = category c \<and> saved \<in> set (read_courses st' STORAGE_KEY)"
proof (rule saveCourse_returned [OF assms])
  fix sc :: course
  assume "saved = c\<lparr>c_id := c_id sc, updatedAt := Some (clock_iso e)\<rparr>"
  then have "category saved = category c" by simp
  then show ?thesis
    using saveCourse_mirror [OF assms] add_or_update_member [of saved] by simp
qed

lemma payload_not_embedded: "\<not> embedded (category (saveToMongoDB_payload c))"
  by (simp add: saveToMongoDB_payload_def embedded_def split: category.splits)

lemma payload_keeps_bare:
  "\<not> embedded (category c) \<Longrightarrow> category (saveToMongoDB_payload c) = category c"
  by (simp add: saveToMongoDB_payload_def embedded_def split: category.splits)

lemma category_set_reduces:
  "truthy oid \<or> truthy i \<Longrightarrow> \<not> embedded (category_set (CatObj oid i n))"
  by (auto simp: category_set_def embedded_def truthy_def truthy_val_def
           split: option.splits if_splits)

lemma stored_payload_not_embedded:
  "\<not> embedded (category_set (POST_category findById (category (saveToMongoDB_payload c))))"
  by (simp add: saveToMongoDB_payload_def POST_category_def category_set_def embedded_def
           split: category.splits option.splits)

lemma payload_category:
  "category (saveToMongoDB_payload c)
     = (case category c of
          CatObj oid i n \<Rightarrow> CatStr (or_else oid (or_else n ''web-development''))
        | other \<Rightarrow> other)"
  by (simp add: saveToMongoDB_payload_def)

lemma or_else_truthy: "a \<noteq> [] \<Longrightarrow> or_else (Some a) d = a"
  by (simp add: or_else_def truthy_val_def)

lemma or_else_falsy: "\<not> truthy v \<Longrightarrow> or_else v d = d"
  by (simp add: or_else_def truthy_val_def truthy_def split: option.splits)

lemma truthy_val_truthy: "a \<noteq> [] \<Longrightarrow> truthy_val (Some a) = Some a"
  by (simp add: truthy_val_def)

lemma truthy_val_falsy: "\<not> truthy v \<Longrightarrow> truthy_val v = None"
  by (simp add: truthy_val_def truthy_def split: option.splits)

text \<open>
  C6, as the code has it. The sync path never builds the embedded pair; it reduces it.
  \<^verbatim>\<open>saveToMongoDB\<close> sends an object category as a bare string, its \<^verbatim>\<open>_id\<close> when that
  is non-empty, else its \<^verbatim>\<open>name\<close> when that is non-empty, else
  \<^verbatim>\<open>'web-development'\<close>, and sends any other category and every other field unchanged.
  \<^verbatim>\<open>POST /api/courses\<close> turns a string into the \<^verbatim>\<open>_id\<close> of the category it finds, or
  keeps it when it finds none, turns an object with a non-empty \<^verbatim>\<open>_id\<close> into that
  \<^verbatim>\<open>_id\<close>, and keeps an object without one. The schema setter stores an object with a
  non-empty \<^verbatim>\<open>_id\<close> as that \<^verbatim>\<open>_id\<close>, otherwise one with a non-empty \<^verbatim>\<open>id\<close> as
  that \<^verbatim>\<open>id\<close>, and anything else unchanged. What route and setter store of a
  \<^verbatim>\<open>saveToMongoDB\<close> payload is never the embedded form. The getter returns what is
  stored, and \<^verbatim>\<open>saveCourse\<close> writes the category to the local mirror exactly as it was
  supplied.
\<close>

theorem category_stored_as_supplied_or_bare:
  "\<not> embedded (category (saveToMongoDB_payload c))
   \<and> (\<not> embedded (category c) \<longrightarrow> category (saveToMongoDB_payload c) = category c)
   \<and> (a \<noteq> [] \<and> category c = CatObj (Some a) i n
        \<longrightarrow> category (saveToMongoDB_payload c) = CatStr a)
   \<and> (\<not> truthy oid \<and> b \<noteq> [] \<and> category c = CatObj oid i (Some b)
        \<longrightarrow> category (saveToMongoDB_payload c) = CatStr b)
   \<and> (\<not> truthy oid \<and> \<not> truthy n \<and> category c = CatObj oid i n
        \<longrightarrow> category (saveToMongoDB_payload c) = CatStr ''web-development'')
   \<and> (saveToMongoDB_payload c)\<lparr>category := category c\<rparr> = c
   \<and> body (saveToMongoDB_request e c) = Some (saveToMongoDB_payload c)
   \<and> (findById s = Some found \<longrightarrow> POST_category findById (CatStr s) = CatStr found)
   \<and> (findById s = None \<longrightarrow> POST_category findById (CatStr s) = CatStr s)
   \<and> (a \<noteq> [] \<longrightarrow> POST_category findById (CatObj (Some a) i n) = CatStr a)
   \<and> (\<not> truthy oid \<longrightarrow> POST_category findById (CatObj oid i n) = CatObj oid i n)
   \<and> POST_category findById NoCategory = NoCategory
   \<and> (a \<noteq> [] \<longrightarrow> category_set (CatObj (Some a) i n) = CatStr a)
   \<and> (\<not> truthy oid \<and> b \<noteq> [] \<longrightarrow> category_set (CatObj oid (Some b) n) = CatStr b)
   \<and> (\<not> truthy oid \<and> \<not> truthy i \<longrightarrow> category_set (CatObj oid i n) = CatObj oid i n)
   \<and> category_set (CatStr s) = CatStr s
   \<and> category_set NoCategory = NoCategory
   \<and> (truthy oid \<or> truthy i \<longrightarrow> \<not> embedded (category_set (CatObj oid i n)))
   \<and> \<not> embedded (category_set (POST_category findById (category (saveToMongoDB_payload c))))
   \<and> category_get v = v
   \<and> (saveCourse e c st = (Inr saved, st')
        \<longrightarrow> category saved = category c \<and> saved \<in> set (read_courses st' STORAGE_KEY))"
proof (intro conjI impI)
  show "\<not> embedded (category (saveToMongoDB_payload c))"
    by (rule payload_not_embedded)
  show "\<not> embedded (category_set (POST_category findById (category (saveToMongoDB_payload c))))"
    by (rule stored_payload_not_embedded)
  show "(saveToMongoDB_payload c)\<lparr>category := category c\<rparr> = c"
    by (simp add: saveToMongoDB_payload_def)
  show "body (saveToMongoDB_request e c) = Some (saveToMongoDB_payload c)"
    by (simp add: saveToMongoDB_request_def)
  show "category_get v = v"
    by (simp add: category_get_def split: category.splits)
  show "category_set (CatStr s) = CatStr s" and "category_set NoCategory = NoCategory"
    by (simp_all add: category_set_def)
  show "POST_category findById NoCategory = NoCategory"
    by (simp add: POST_category_def)
next
  assume "\<not> embedded (category c)"
  then show "category (saveToMongoDB_payload c) = category c"
    by (rule payload_keeps_bare)
next
  assume "a \<noteq> [] \<and> category c = CatObj (Some a) i n"
  then show "category (saveToMongoDB_payload c) = CatStr a"
    by (simp add: payload_category or_else_truthy)
next
  assume "\<not> truthy oid \<and> b \<noteq> [] \<and> category c = CatObj oid i (Some b)"
  then show "category (saveToMongoDB_payload c) = CatStr b"
    by (simp add: payload_category or_else_truthy or_else_falsy)
next
  assume "\<not> truthy oid \<and> \<not> truthy n \<and> category c = CatObj oid i n"
  then show "category (saveToMongoDB_payload c) = CatStr ''web-development''"
    by (simp add: payload_category or_else_falsy)
next
  assume "findById s = Some found"
  then show "POST_category findById (CatStr s) = CatStr found"
    by (simp add: POST_category_def)
next
  assume "findById s = None"
  then show "POST_category findById (CatStr s) = CatStr s"
    by (simp add: POST_category_def)
next
  assume "a \<noteq> []"
  then show "POST_category findById (CatObj (Some a) i n) = CatStr a"
    and "category_set (CatObj (Some a) i n) = CatStr a"
    by (simp_all add: POST_category_def category_set_def truthy_val_truthy)
next
  assume "\<not> truthy oid"
  then show "POST_category findById (CatObj oid i n) = CatObj oid i n"
    by (simp add: POST_category_def truthy_val_falsy)
next
  assume "\<not> truthy oid \<and> b \<noteq> []"
  then show "category_set (CatObj oid (Some b) n) = CatStr b"
    by (simp add: category_set_def truthy_val_falsy truthy_val_truthy)
next
  assume "\<not> truthy oid \<and> \<not> truthy i"
  then show "category_set (CatObj oid i n) = CatObj oid i n"
    by (simp add: category_set_def truthy_val_falsy)
next
  assume "truthy oid \<or> truthy i"
  then show "\<not> embedded (category_set (CatObj oid i n))"
    by (rule category_set_reduces)
next
  assume s: "saveCourse e c st = (Inr saved, st')"
  from saveCourse_stored [OF s]
  show "category saved = category c" and "saved \<in> set (read_courses st' STORAGE_KEY)"
    by simp_all
qed

theorem category_stored_as_supplied_or_bare_witness:
  "category (saveToMongoDB_payload (categorised (CatObj (Some ''c1'') None (Some ''Web''))))
     = CatStr ''c1''
   \<and> category (saveToMongoDB_payload (categorised (CatObj None None (Some ''Web''))))
     = CatStr ''Web''
   \<and> category (saveToMongoDB_payload (categorised (CatObj None (Some ''c9'') None)))
     = CatStr ''web-development''
   \<and> category (saveToMongoDB_payload (categorised (CatStr ''c1''))) = CatStr ''c1''
   \<and> POST_category found_category (CatStr ''c1'') = CatStr ''c1''
   \<and> POST_category no_category (CatStr ''c1'') = CatStr ''c1''
   \<and> POST_category no_category (CatObj (Some ''c1'') None (Some ''Web'')) = CatStr ''c1''
   \<and> POST_category no_category (CatObj None None (Some ''Web'')) = CatObj None None (Some ''Web'')
   \<and> category_set (CatObj (Some ''c1'') None (Some ''Web'')) = CatStr ''c1''
   \<and> category_set (CatObj None (Some ''c9'') None) = CatStr ''c9''
   \<and> category_set (CatObj None None (Some ''Web'')) = CatObj None None (Some ''Web'')
   \<and> \<not> embedded (category_set (CatObj (Some ''c1'') None (Some ''Web'')))
   \<and> fst (saveCourse (saving_browser (sample ''42'' ''New'')) (categorised (CatStr ''c1''))
            (mirror_of []))
       = Inr ((sample ''42'' ''New'')
               \<lparr>category := CatStr ''c1'', updatedAt := Some ''2023-11-14T22:13:20.000Z''\<rparr>)
   \<and> (sample ''42'' ''New'')
         \<lparr>category := CatStr ''c1'', updatedAt := Some ''2023-11-14T22:13:20.000Z''\<rparr>
       \<in> set (read_courses
                (snd (saveCourse (saving_browser (sample ''42'' ''New''))
                       (categorised (CatStr ''c1'')) (mirror_of [])))
                STORAGE_KEY)"
proof -
  let ?s = "saving_browser (sample ''42'' ''New'')"
  let ?c = "categorised (CatStr ''c1'')"
  let ?u = "(sample ''42'' ''New'')
              \<lparr>category := CatStr ''c1'', updatedAt := Some ''2023-11-14T22:13:20.000Z''\<rparr>"
  have t: "truthy (Some ''c1'')" "\<not> truthy None" "''c1'' \<noteq> []" "''Web'' \<noteq> []" "''c9'' \<noteq> []"
    by (simp_all add: truthy_def)
  have cats: "category (categorised (CatObj (Some ''c1'') None (Some ''Web'')))
                = CatObj (Some ''c1'') None (Some ''Web'')"
    "category (categorised (CatObj None None (Some ''Web''))) = CatObj None None (Some ''Web'')"
    "category (categorised (CatObj None (Some ''c9'') None)) = CatObj None (Some ''c9'') None"
    "\<not> embedded (category ?c)"
    by (simp_all add: categorised_def embedded_def)
  have f: "found_category ''c1'' = Some ''c1''" "no_category ''c1'' = None"
    by (simp_all add: found_category_def no_category_def)
  have b: "fst (saveCourse ?s ?c (mirror_of [])) = Inr ?u"
    by (simp add: saveCourse_def saveToMongoDB_def verifyMongoDBSync_def add_or_update_def Let_def
          categorised_def storage_eval client_eval)
  then have b': "saveCourse ?s ?c (mirror_of []) = (Inr ?u, snd (saveCourse ?s ?c (mirror_of [])))"
    by (metis prod.collapse)
  note w1 = category_stored_as_supplied_or_bare
      [where c = "categorised (CatObj (Some ''c1'') None (Some ''Web''))" and a = "''c1''"
         and i = None and n = "Some ''Web''" and oid = None and b = "''Web''"
         and findById = no_category and s = "''c1''"]
  note w2 = category_stored_as_supplied_or_bare
      [where c = "categorised (CatObj None None (Some ''Web''))" and oid = None and i = None
         and b = "''Web''" and n = "Some ''Web''" and findById = no_category]
  note w3 = category_stored_as_supplied_or_bare
      [where c = "categorised (CatObj None (Some ''c9'') None)" and oid = None
         and i = "Some ''c9''" and n = None and b = "''c9''"]
  note w4 = category_stored_as_supplied_or_bare
      [where c = ?c and findById = found_category and s = "''c1''" and found = "''c1''"
         and oid = "Some ''c1''" and i = None and n = "Some ''Web''"
         and e = ?s and st = "mirror_of []" and saved = ?u
         and st' = "snd (saveCourse ?s ?c (mirror_of []))"]
  from w1 t cats f have
    p1: "category (saveToMongoDB_payload (categorised (CatObj (Some ''c1'') None (Some ''Web''))))
           = CatStr ''c1''"
    and r2: "POST_category no_category (CatStr ''c1'') = CatStr ''c1''"
    and r3: "POST_category no_category (CatObj (Some ''c1'') None (Some ''Web'')) = CatStr ''c1''"
    and s1: "category_set (CatObj (Some ''c1'') None (Some ''Web'')) = CatStr ''c1''"
    by simp_all
  from w2 t cats have
    p2: "category (saveToMongoDB_payload (categorised (CatObj None None (Some ''Web''))))
           = CatStr ''Web''"
    and r4: "POST_category no_category (CatObj None None (Some ''Web''))
               = CatObj None None (Some ''Web'')"
    and s3: "category_set (CatObj None None (Some ''Web'')) = CatObj None None (Some ''Web'')"
    by simp_all
  from w3 t cats have
    p3: "category (saveToMongoDB_payload (categorised (CatObj None (Some ''c9'') None)))
           = CatStr ''web-development''"
    and s2: "category_set (CatObj None (Some ''c9'') None) = CatStr ''c9''"
    by simp_all
  from w4 t cats f b' have
    p4: "category (saveToMongoDB_payload ?c) = CatStr ''c1''"
    and r1: "POST_category found_category (CatStr ''c1'') = CatStr ''c1''"
    and e1: "\<not> embedded (category_set (CatObj (Some ''c1'') None (Some ''Web'')))"
    and m: "?u \<in> set (read_courses (snd (saveCourse ?s ?c (mirror_of []))) STORAGE_KEY)"
    by (simp_all add: categorised_def)
  from p1 p2 p3 p4 r1 r2 r3 r4 s1 s2 s3 e1 b m show ?thesis
    by (intro conjI)
qed

text \<open>
  C6 as stated fails. A course saved with the bare category id \<^verbatim>\<open>'c1'\<close> is sent with
  that bare id, the route and the schema setter store the bare id, the getter reads it back
  bare, and the record \<^verbatim>\<open>saveCourse\<close> writes to the local mirror holds the bare id. An
  embedded pair fares no better: the setter stores its \<^verbatim>\<open>_id\<close> alone.
\<close>

theorem category_bare_id_counterexample:
  "category (saveToMongoDB_payload
       ((pending ''New'')\<lparr>category := CatStr ''c1''\<rparr>)) = CatStr ''c1''
   \<and> category_get (category_set (POST_category no_category (CatStr ''c1''))) = CatStr ''c1''
   \<and> \<not> embedded (CatStr ''c1'')
   \<and> category_get (category_set (CatObj (Some ''c1'') None (Some ''Web''))) = CatStr ''c1''
   \<and> snd (saveCourse
            (saving_browser (sample ''42'' ''New''))
            ((pending ''New'')\<lparr>category := CatStr ''c1''\<rparr>) (mirror_of []))
         ''edutube_courses''
       = Some (Json [(sample ''42'' ''New'')
               \<lparr>category := CatStr ''c1'', updatedAt := Some ''2023-11-14T22:13:20.000Z''\<rparr>])"
  by (simp add: saveToMongoDB_payload_def category_get_def category_set_def POST_category_def
        embedded_def saveCourse_def saveToMongoDB_def verifyMongoDBSync_def add_or_update_def Let_def
        storage_eval client_eval)

section \<open>Update-or-add by identity\<close>

lemma findIndex_none: "findIndex P xs < 0 \<longleftrightarrow> (\<forall>x \<in> set xs. \<not> P x)"
  by (induction xs) (auto simp: Let_def)

lemma findIndex_first:
  "0 \<le> findIndex P xs \<Longrightarrow>
   nat (findIndex P xs) < length xs \<and> P (xs ! nat (findIndex P xs))
   \<and> (\<forall>j < nat (findIndex P xs). \<not> P (xs ! j))"
proof (induction xs)
  case Nil
  then show ?case by simp
next
  case (Cons x xs)
  show ?case
  proof (cases "P x")
    case True
    then show ?thesis by simp
  next
    case False
    with Cons.prems have nn: "0 \<le> findIndex P xs"
      by (simp add: Let_def split: if_splits)
    with False have eq: "findIndex P (x # xs) = findIndex P xs + 1"
      by (simp add: Let_def)
    from nn have n: "nat (findIndex P xs + 1) = Suc (nat (findIndex P xs))"
      by simp
    from Cons.IH [OF nn] False show ?thesis
      unfolding eq n by (auto simp: nth_Cons split: nat.splits)
  qed
qed

lemma update_or_add_found:
  assumes "\<exists>c \<in> set cs. c_id c = c_id r"
  shows "\<exists>i < length cs. c_id (cs ! i) = c_id r \<and> (\<forall>j < i. c_id (cs ! j) \<noteq> c_id r)
           \<and> update_or_add r cs = cs[i := r]"
proof -
  let ?i = "findIndex (\<lambda>c. c_id c = c_id r) cs"
  from assms have nn: "0 \<le> ?i"
    using findIndex_none [of "\<lambda>c. c_id c = c_id r" cs] by auto
  from findIndex_first [OF nn] nn show ?thesis
    by (intro exI [of _ "nat ?i"]) (simp add: update_or_add_def)
qed

lemma update_or_add_new:
  assumes "\<forall>c \<in> set cs. c_id c \<noteq> c_id r"
  shows "update_or_add r cs = cs @ [r]"
  using assms findIndex_none [of "\<lambda>c. c_id c = c_id r" cs]
  by (simp add: update_or_add_def)

lemma filter_update_single:
  "i < length xs \<Longrightarrow> P (xs ! i) \<Longrightarrow> P y \<Longrightarrow> length (filter P xs) \<le> 1 \<Longrightarrow>
   filter P (xs[i := y]) = [y]"
proof (induction xs arbitrary: i)
  case Nil
  then show ?case by simp
next
  case (Cons x xs)
  show ?case
  proof (cases i)
    case 0
    with Cons.prems show ?thesis by simp
  next
    case (Suc k)
    with Cons.prems have k: "k < length xs" "P (xs ! k)" by simp_all
    then have "xs ! k \<in> set (filter P xs)" by simp
    then have "filter P xs \<noteq> []" by (auto simp: filter_empty_conv)
    with Cons.prems(4) have "\<not> P x"
      by (cases "filter P xs") (auto split: if_splits)
    with Cons.prems Cons.IH [of k] k Suc show ?thesis by simp
  qed
qed


lemma update_or_add_single:
  assumes "length (filter (\<lambda>c. c_id c = c_id r) cs) \<le> 1"
  shows "filter (\<lambda>c. c_id c = c_id r) (update_or_add r cs) = [r]"
proof (cases "\<exists>c \<in> set cs. c_id c = c_id r")
  case True
  from update_or_add_found [OF True] obtain i where
    "i < length cs" "c_id (cs ! i) = c_id r" "update_or_add r cs = cs[i := r]"
    by blast
  with assms show ?thesis
    using filter_update_single [of i cs "\<lambda>c. c_id c = c_id r" r] by simp
next
  case False
  then have "filter (\<lambda>c. c_id c = c_id r) cs = []"
    by (auto simp: filter_empty_conv)
  with False show ?thesis
    by (simp add: update_or_add_new)
qed


lemma syncLocalStorage_slots:
  assumes "syncLocalStorage q r st = (None, st')"
  shows "read_courses st' ''adminCourses'' = update_or_add r (read_courses st ''adminCourses'')"
    and "read_courses st' ''edutube_courses'' = update_or_add r (read_courses st ''edutube_courses'')"
    and "read_courses st' ''courses_data'' = update_or_add r (read_courses st ''adminCourses'')"
    and "read_courses st' ''user_courses'' = update_or_add r (read_courses st ''adminCourses'')"
proof -
  from assms have
    "st' = st(''adminCourses'' \<mapsto> Json (update_or_add r (read_courses st ''adminCourses'')),
              ''edutube_courses'' \<mapsto> Json (update_or_add r (read_courses st ''edutube_courses'')),
              ''courses_data'' \<mapsto> Json (update_or_add r (read_courses st ''adminCourses'')),
              ''user_courses'' \<mapsto> Json (update_or_add r (read_courses st ''adminCourses'')))"
    unfolding syncLocalStorage_def Let_def by (rule setItems_four)
  then have s: "st' ''adminCourses'' = Some (Json (update_or_add r (read_courses st ''adminCourses'')))"
    "st' ''edutube_courses'' = Some (Json (update_or_add r (read_courses st ''edutube_courses'')))"
    "st' ''courses_data'' = Some (Json (update_or_add r (read_courses st ''adminCourses'')))"
    "st' ''user_courses'' = Some (Json (update_or_add r (read_courses st ''adminCourses'')))"
    by simp_all
  show "read_courses st' ''adminCourses'' = update_or_add r (read_courses st ''adminCourses'')"
    by (simp add: read_courses_def [of st'] s slot_truthy_def JSON_parse_def)
  show "read_courses st' ''edutube_courses'' = update_or_add r (read_courses st ''edutube_courses'')"
    by (simp add: read_courses_def [of st'] s slot_truthy_def JSON_parse_def)
  show "read_courses st' ''courses_data'' = update_or_add r (read_courses st ''adminCourses'')"
    by (simp add: read_courses_def [of st'] s slot_truthy_def JSON_parse_def)
  show "read_courses st' ''user_courses'' = update_or_add r (read_courses st ''adminCourses'')"
    by (simp add: read_courses_def [of st'] s slot_truthy_def JSON_parse_def)
qed

text \<open>
  One call of \<^verbatim>\<open>syncLocalStorage\<close> with a record of identity \<open>k\<close>, on a mirror whose
  two source slots hold at most one record of that identity each: every slot ends with the
  record as its only record of that identity.
\<close>

lemma syncLocalStorage_single:
  assumes "c_id r = k"
    and "length (filter (\<lambda>c. c_id c = k) (read_courses st ''adminCourses'')) \<le> 1"
    and "length (filter (\<lambda>c. c_id c = k) (read_courses st ''edutube_courses'')) \<le> 1"
    and "syncLocalStorage q r st = (None, st1)"
  shows "\<forall>s \<in> set mirror_keys. filter (\<lambda>c. c_id c = k) (read_courses st1 s) = [r]"
proof -
  note one = syncLocalStorage_slots [OF assms(4)]
  have a: "filter (\<lambda>c. c_id c = k) (update_or_add r (read_courses st ''adminCourses'')) = [r]"
    using update_or_add_single [of r "read_courses st ''adminCourses''"] assms(1,2) by simp
  have e: "filter (\<lambda>c. c_id c = k) (update_or_add r (read_courses st ''edutube_courses'')) = [r]"
    using update_or_add_single [of r "read_courses st ''edutube_courses''"] assms(1,3) by simp
  from a e one show ?thesis
    by (simp add: mirror_keys_def)
qed

lemma syncLocalStorage_twice:
  assumes "c_id r1 = k" and "c_id r2 = k"
    and "length (filter (\<lambda>c. c_id c = k) (read_courses st ''adminCourses'')) \<le> 1"
    and "length (filter (\<lambda>c. c_id c = k) (read_courses st ''edutube_courses'')) \<le> 1"
    and "syncLocalStorage q r1 st = (None, st1)"
    and "syncLocalStorage q r2 st1 = (None, st2)"
  shows "\<forall>s \<in> set mirror_keys. filter (\<lambda>c. c_id c = k) (read_courses st2 s) = [r2]"
proof -
  from syncLocalStorage_single [OF assms(1,3,4,5)] have
    "length (filter (\<lambda>c. c_id c = k) (read_courses st1 ''adminCourses'')) \<le> 1"
    "length (filter (\<lambda>c. c_id c = k) (read_courses st1 ''edutube_courses'')) \<le> 1"
    by (simp_all add: mirror_keys_def)
  from syncLocalStorage_single [OF assms(2) this assms(6)] show ?thesis .
qed


lemma add_or_update_new:
  "\<forall>c \<in> set cs. c_id c \<noteq> c_id r \<Longrightarrow> add_or_update r cs = cs @ [r]"
  by (simp add: add_or_update_def list_ex_iff)

lemma add_or_update_found:
  "\<exists>c \<in> set cs. c_id c = c_id r \<Longrightarrow>
   add_or_update r cs = map (\<lambda>c. if c_id c = c_id r then r else c) cs"
  by (simp add: add_or_update_def list_ex_iff)

text \<open>
  C5. \<^verbatim>\<open>upsertOne\<close> matches by identity alone. In \<^verbatim>\<open>syncLocalStorage\<close> a record
  whose \<^verbatim>\<open>_id\<close> equals that of a stored record replaces the first such record in place,
  and a record with a new \<^verbatim>\<open>_id\<close> is appended; a call that completes leaves each slot
  with the updated list. In \<^verbatim>\<open>saveCourse\<close> the record replaces every stored record of
  its \<^verbatim>\<open>_id\<close>, or is appended. Two calls with records of identity \<open>x\<close>, on a mirror
  that holds at most one record of that identity, leave every slot with exactly one record
  of identity \<open>x\<close>: the second one.
\<close>

theorem upsertOne_matches_by_identity:
  "((\<exists>c \<in> set cs. c_id c = c_id r)
      \<longrightarrow> (\<exists>i < length cs. c_id (cs ! i) = c_id r \<and> (\<forall>j < i. c_id (cs ! j) \<noteq> c_id r)
             \<and> update_or_add r cs = cs[i := r]))
   \<and> ((\<forall>c \<in> set cs. c_id c \<noteq> c_id r) \<longrightarrow> update_or_add r cs = cs @ [r])
   \<and> (syncLocalStorage q r st = (None, st1)
      \<longrightarrow> read_courses st1 ''adminCourses'' = update_or_add r (read_courses st ''adminCourses'')
          \<and> read_courses st1 ''edutube_courses'' = update_or_add r (read_courses st ''edutube_courses'')
          \<and> read_courses st1 ''courses_data'' = update_or_add r (read_courses st ''adminCourses'')
          \<and> read_courses st1 ''user_courses'' = update_or_add r (read_courses st ''adminCourses''))
   \<and> ((\<exists>c \<in> set cs. c_id c = c_id r)
      \<longrightarrow> add_or_update r cs = map (\<lambda>c. if c_id c = c_id r then r else c) cs)
   \<and> ((\<forall>c \<in> set cs. c_id c \<noteq> c_id r) \<longrightarrow> add_or_update r cs = cs @ [r])
   \<and> (saveCourse e c st = (Inr saved, st')
      \<longrightarrow> read_courses st' STORAGE_KEY = add_or_update saved (read_courses st STORAGE_KEY))
   \<and> (c_id r = Some x \<and> c_id r2 = Some x
        \<and> length (with_id (Some x) (read_courses st ''adminCourses'')) \<le> 1
        \<and> length (with_id (Some x) (read_courses st ''edutube_courses'')) \<le> 1
        \<and> syncLocalStorage q r st = (None, st1)
        \<and> syncLocalStorage q r2 st1 = (None, st2)
      \<longrightarrow> (\<forall>s \<in> set mirror_keys.
             with_id (Some x) (read_courses st2 s) = [r2]))"
  unfolding with_id_def
proof (intro conjI impI)
  assume "\<exists>c \<in> set cs. c_id c = c_id r"
  then show "\<exists>i < length cs. c_id (cs ! i) = c_id r \<and> (\<forall>j < i. c_id (cs ! j) \<noteq> c_id r)
             \<and> update_or_add r cs = cs[i := r]"
    by (rule update_or_add_found)
next
  assume "\<forall>c \<in> set cs. c_id c \<noteq> c_id r"
  then show "update_or_add r cs = cs @ [r]"
    by (rule update_or_add_new)
next
  assume "\<exists>c \<in> set cs. c_id c = c_id r"
  then show "add_or_update r cs = map (\<lambda>c. if c_id c = c_id r then r else c) cs"
    by (rule add_or_update_found)
next
  assume "\<forall>c \<in> set cs. c_id c \<noteq> c_id r"
  then show "add_or_update r cs = cs @ [r]"
    by (rule add_or_update_new)
next
  assume "saveCourse e c st = (Inr saved, st')"
  then show "read_courses st' STORAGE_KEY = add_or_update saved (read_courses st STORAGE_KEY)"
    by (rule saveCourse_mirror)
next
  assume "c_id r = Some x \<and> c_id r2 = Some x
        \<and> length (filter (\<lambda>c. c_id c = Some x) (read_courses st ''adminCourses'')) \<le> 1
        \<and> length (filter (\<lambda>c. c_id c = Some x) (read_courses st ''edutube_courses'')) \<le> 1
        \<and> syncLocalStorage q r st = (None, st1)
        \<and> syncLocalStorage q r2 st1 = (None, st2)"
  then show "\<forall>s \<in> set mirror_keys. filter (\<lambda>c. c_id c = Some x) (read_courses st2 s) = [r2]"
    using syncLocalStorage_twice [of r "Some x" r2 st q st1 st2] by blast
qed (simp_all add: syncLocalStorage_slots)

lemma syncLocalStorage_unlimited: "fst (syncLocalStorage unlimited r st) = None"
  by (simp add: syncLocalStorage_def unlimited_def Let_def)

theorem upsertOne_matches_by_identity_witness:
  "update_or_add (sample ''x'' ''T2'') [sample ''y'' ''T1'', sample ''x'' ''T1'']
     = [sample ''y'' ''T1'', sample ''x'' ''T2'']
   \<and> update_or_add (sample ''x'' ''T2'') [sample ''y'' ''T1'']
     = [sample ''y'' ''T1'', sample ''x'' ''T2'']
   \<and> add_or_update (sample ''x'' ''T2'') [sample ''y'' ''T1'', sample ''x'' ''T1'']
     = [sample ''y'' ''T1'', sample ''x'' ''T2'']
   \<and> add_or_update (sample ''x'' ''T2'') [sample ''y'' ''T1'']
     = [sample ''y'' ''T1'', sample ''x'' ''T2'']
   \<and> fst (syncLocalStorage unlimited (sample ''x'' ''T1'') (mirror_of [])) = None
   \<and> fst (syncLocalStorage unlimited (sample ''x'' ''T2'')
            (snd (syncLocalStorage unlimited (sample ''x'' ''T1'') (mirror_of [])))) = None
   \<and> with_id (Some ''x'')
        (read_courses
           (snd (syncLocalStorage unlimited (sample ''x'' ''T2'')
                   (snd (syncLocalStorage unlimited (sample ''x'' ''T1'') (mirror_of [])))))
           ''adminCourses'') = [sample ''x'' ''T2'']
   \<and> with_id (Some ''x'')
        (read_courses
           (snd (syncLocalStorage unlimited (sample ''x'' ''T2'')
                   (snd (syncLocalStorage unlimited (sample ''x'' ''T1'') (mirror_of [])))))
           ''edutube_courses'') = [sample ''x'' ''T2'']
   \<and> title (sample ''x'' ''T2'') = ''T2''
   \<and> read_courses
        (snd (saveCourse
               (saving_browser (sample ''42'' ''New''))
               (pending ''New'') (mirror_of [])))
        STORAGE_KEY
       = [(sample ''42'' ''New'')\<lparr>updatedAt := Some ''2023-11-14T22:13:20.000Z''\<rparr>]"
proof -
  let ?r1 = "sample ''x'' ''T1''"
  let ?r2 = "sample ''x'' ''T2''"
  let ?y = "sample ''y'' ''T1''"
  let ?st1 = "snd (syncLocalStorage unlimited ?r1 (mirror_of []))"
  let ?st2 = "snd (syncLocalStorage unlimited ?r2 ?st1)"
  let ?s = "saving_browser (sample ''42'' ''New'')"
  let ?c = "pending ''New''"
  let ?u = "(sample ''42'' ''New'')\<lparr>updatedAt := Some ''2023-11-14T22:13:20.000Z''\<rparr>"
  have found: "\<exists>c \<in> set [?y, ?r1]. c_id c = c_id ?r2"
    by (simp add: sample_def)
  have new: "\<forall>c \<in> set [?y]. c_id c \<noteq> c_id ?r2"
    by (simp add: sample_def)
  have s1: "syncLocalStorage unlimited ?r1 (mirror_of []) = (None, ?st1)"
    using syncLocalStorage_unlimited [of ?r1 "mirror_of []"] by (metis prod.collapse)
  have s2: "syncLocalStorage unlimited ?r2 ?st1 = (None, ?st2)"
    using syncLocalStorage_unlimited [of ?r2 ?st1] by (metis prod.collapse)
  have ids: "c_id ?r1 = Some ''x''" "c_id ?r2 = Some ''x''"
    by (simp_all add: sample_def)
  have few: "length (filter (\<lambda>c. c_id c = Some ''x'') (read_courses (mirror_of []) ''adminCourses'')) \<le> 1"
    "length (filter (\<lambda>c. c_id c = Some ''x'') (read_courses (mirror_of []) ''edutube_courses'')) \<le> 1"
    by (simp_all add: storage_eval)
  have b: "fst (saveCourse ?s ?c (mirror_of [])) = Inr ?u"
    by (simp add: saveCourse_def saveToMongoDB_def verifyMongoDBSync_def add_or_update_def Let_def
          storage_eval client_eval)
  then have b': "saveCourse ?s ?c (mirror_of []) = (Inr ?u, snd (saveCourse ?s ?c (mirror_of [])))"
    by (metis prod.collapse)
  note w1 = upsertOne_matches_by_identity
      [where cs = "[?y, ?r1]" and r = ?r2 and q = unlimited and st = "mirror_of []"
         and ?st1.0 = ?st1 and e = ?s and c = ?c and saved = ?u
         and st' = "snd (saveCourse ?s ?c (mirror_of []))" and x = "''x''" and ?r2.0 = ?r2
         and ?st2.0 = ?st2, unfolded with_id_def]
  note w2 = upsertOne_matches_by_identity
      [where cs = "[?y]" and r = ?r1 and q = unlimited and st = "mirror_of []"
         and ?st1.0 = ?st1 and e = ?s and c = ?c and saved = ?u
         and st' = "snd (saveCourse ?s ?c (mirror_of []))" and x = "''x''" and ?r2.0 = ?r2
         and ?st2.0 = ?st2, unfolded with_id_def]
  note w3 = upsertOne_matches_by_identity
      [where cs = "[?y]" and r = ?r2 and q = unlimited and st = "mirror_of []"
         and ?st1.0 = ?st1 and e = ?s and c = ?c and saved = ?u
         and st' = "snd (saveCourse ?s ?c (mirror_of []))" and x = "''x''" and ?r2.0 = ?r2
         and ?st2.0 = ?st2, unfolded with_id_def]
  from w1 found have c1: "update_or_add ?r2 [?y, ?r1] = [?y, ?r2]"
    by (auto simp: sample_def less_Suc_eq)
  from w1 found have c3: "add_or_update ?r2 [?y, ?r1] = [?y, ?r2]"
    by (simp add: sample_def)
  from w3 new have c2: "update_or_add ?r2 [?y] = [?y, ?r2]" and c4: "add_or_update ?r2 [?y] = [?y, ?r2]"
    by simp_all
  from w2 ids few s1 s2 have
    c5: "\<forall>s \<in> set mirror_keys. filter (\<lambda>c. c_id c = Some ''x'') (read_courses ?st2 s) = [?r2]"
    by blast
  from w1 b' have c6: "read_courses (snd (saveCourse ?s ?c (mirror_of []))) STORAGE_KEY
                        = add_or_update ?u (read_courses (mirror_of []) STORAGE_KEY)"
    by blast
  then have c6': "read_courses (snd (saveCourse ?s ?c (mirror_of []))) STORAGE_KEY = [?u]"
    by (simp add: add_or_update_def storage_eval)
  have t: "title ?r2 = ''T2''"
    by (simp add: sample_def)
  from c1 c2 c3 c4 c5 c6' t syncLocalStorage_unlimited show ?thesis
    by (simp add: mirror_keys_def with_id_def)
qed

text \<open>
  C5 as stated fails on a mirror that already holds two records of identity \<^verbatim>\<open>x\<close>:
  \<^verbatim>\<open>findIndex\<close> finds the first only, so after the two upserts every slot holds two
  records of identity \<^verbatim>\<open>x\<close>, the second of them with its old title.
\<close>

theorem upsertOne_duplicates_counterexample:
  "fst (syncLocalStorage unlimited (sample ''x'' ''T1'')
          (mirror_of [sample ''x'' ''T0'', sample ''x'' ''T00''])) = None
   \<and> fst (syncLocalStorage unlimited (sample ''x'' ''T2'')
          (snd (syncLocalStorage unlimited (sample ''x'' ''T1'')
                  (mirror_of [sample ''x'' ''T0'', sample ''x'' ''T00''])))) = None
   \<and> read_courses
        (snd (syncLocalStorage unlimited (sample ''x'' ''T2'')
                (snd (syncLocalStorage unlimited (sample ''x'' ''T1'')
                        (mirror_of [sample ''x'' ''T0'', sample ''x'' ''T00''])))))
        ''adminCourses'' = [sample ''x'' ''T2'', sample ''x'' ''T00'']
   \<and> read_courses
        (snd (syncLocalStorage unlimited (sample ''x'' ''T2'')
                (snd (syncLocalStorage unlimited (sample ''x'' ''T1'')
                        (mirror_of [sample ''x'' ''T0'', sample ''x'' ''T00''])))))
        ''edutube_courses'' = [sample ''x'' ''T2'', sample ''x'' ''T00'']
   \<and> c_id (sample ''x'' ''T2'') = Some ''x''
   \<and> c_id (sample ''x'' ''T00'') = Some ''x''
   \<and> title (sample ''x'' ''T00'') = ''T00''"
  by (simp add: syncLocalStorage_def update_or_add_def Let_def storage_eval sample_def)

section \<open>Pending records\<close>










section \<open>Deleting a course\<close>










section \<open>Passes over the four slots\<close>



















end
